theory Spec2Isabelle
  imports Main "HOL-Library.Word"
begin

section \<open>Values\<close>

text \<open>
  Go's \<open>int32\<close> is a 32-bit word and Go's \<open>int\<close> (on the 64-bit targets the provider
  is built for) a 64-bit word. The conversion \<open>int32(n)\<close> of an \<open>int\<close> keeps the low
  32 bits, which is \<open>ucast\<close>.
\<close>

type_synonym int32 = "32 word"
type_synonym go_int = "64 word"

text \<open>
  A run-time panic of Go: a failed type assertion \<open>x.(T)\<close>, or the dereference of a nil
  pointer.
\<close>

datatype go_panic = TypeAssertionFailed | NilPointerDereference

text \<open>
  A value of type \<open>interface{}\<close> together with its dynamic type. Only the dynamic types
  that occur in the resource are listed: nil, \<open>int\<close>, \<open>int32\<close>, \<open>string\<close>,
  \<open>[]interface{}\<close>, \<open>map[string]interface{}\<close>, and, for the values Read hands to
  \<open>d.Set\<close>, \<open>*int32\<close>, \<open>*string\<close> and \<open>synapse.NodeSize\<close>. A map is kept as an
  association list in the order of the map literal that built it.
\<close>

datatype iface =
    VNil
  | VInt go_int
  | VInt32 int32
  | VString string
  | VList "iface list"
  | VMap "(string \<times> iface) list"
  | VPtrInt32 "int32 option"
  | VPtrString "string option"
  | VNodeSize string

text \<open>\<open>v[k]\<close> on a \<open>map[string]interface{}\<close>: a missing key gives the nil interface.\<close>

definition index :: "(string \<times> iface) list \<Rightarrow> string \<Rightarrow> iface" where
  "index v k = (case map_of v k of None \<Rightarrow> VNil | Some x \<Rightarrow> x)"

text \<open>The type assertions \<open>x.(map[string]interface{})\<close>, \<open>x.(int)\<close>, \<open>x.(string)\<close> and
  \<open>x.([]interface{})\<close>: each panics unless the dynamic type is exactly the asserted one.\<close>

fun assertMap :: "iface \<Rightarrow> go_panic + (string \<times> iface) list" where
  "assertMap (VMap m) = Inr m"
| "assertMap _ = Inl TypeAssertionFailed"

fun assertInt :: "iface \<Rightarrow> go_panic + go_int" where
  "assertInt (VInt n) = Inr n"
| "assertInt _ = Inl TypeAssertionFailed"

fun assertString :: "iface \<Rightarrow> go_panic + string" where
  "assertString (VString s) = Inr s"
| "assertString _ = Inl TypeAssertionFailed"

fun assertList :: "iface \<Rightarrow> go_panic + iface list" where
  "assertList (VList xs) = Inr xs"
| "assertList _ = Inl TypeAssertionFailed"

text \<open>Sequencing of steps that may panic: a panic ends the evaluation.\<close>

definition andThen :: "go_panic + 'a \<Rightarrow> ('a \<Rightarrow> go_panic + 'b) \<Rightarrow> go_panic + 'b" where
  "andThen m f = (case m of Inl p \<Rightarrow> Inl p | Inr x \<Rightarrow> f x)"

section \<open>The remote structs\<close>

text \<open>
  The structs of the Synapse SDK, with the fields this resource reads or writes. A Go
  pointer is an \<open>option\<close>: \<open>None\<close> is nil.
\<close>

record AutoPauseProperties =
  DelayInMinutes :: "int32 option"
  AutoPause_Enabled :: "bool option"

record AutoScaleProperties =
  MinNodeCount :: "int32 option"
  AutoScale_Enabled :: "bool option"
  MaxNodeCount :: "int32 option"

record LibraryRequirements =
  Content :: "string option"
  Filename :: "string option"

section \<open>Expand and flatten\<close>

definition expandArmBigDataPoolAutoPauseProperties ::
    "iface list \<Rightarrow> go_panic + AutoPauseProperties option" where
  "expandArmBigDataPoolAutoPauseProperties input =
     (if length input = 0
      then Inr (Some \<lparr>DelayInMinutes = None, AutoPause_Enabled = Some False\<rparr>)
      else
        andThen (assertMap (input ! 0)) (\<lambda>v.
        andThen (assertInt (index v ''delay_in_minutes'')) (\<lambda>n.
          Inr (Some \<lparr>DelayInMinutes = Some (ucast n), AutoPause_Enabled = Some True\<rparr>))))"

definition expandArmBigDataPoolAutoScaleProperties ::
    "iface list \<Rightarrow> go_panic + AutoScaleProperties option" where
  "expandArmBigDataPoolAutoScaleProperties input =
     (if length input = 0 \<or> input ! 0 = VNil
      then Inr (Some \<lparr>MinNodeCount = None, AutoScale_Enabled = Some False,
                       MaxNodeCount = None\<rparr>)
      else
        andThen (assertMap (input ! 0)) (\<lambda>v.
        andThen (assertInt (index v ''min_node_count'')) (\<lambda>lo.
        andThen (assertInt (index v ''max_node_count'')) (\<lambda>hi.
          Inr (Some \<lparr>MinNodeCount = Some (ucast lo), AutoScale_Enabled = Some True,
                      MaxNodeCount = Some (ucast hi)\<rparr>)))))"

definition expandArmBigDataPoolLibraryRequirements ::
    "iface list \<Rightarrow> go_panic + LibraryRequirements option" where
  "expandArmBigDataPoolLibraryRequirements input =
     (if length input = 0
      then Inr None
      else
        andThen (assertMap (input ! 0)) (\<lambda>v.
        andThen (assertString (index v ''content'')) (\<lambda>c.
        andThen (assertString (index v ''filename'')) (\<lambda>f.
          Inr (Some \<lparr>Content = Some c, Filename = Some f\<rparr>)))))"

definition flattenArmBigDataPoolAutoPauseProperties ::
    "AutoPauseProperties option \<Rightarrow> iface list" where
  "flattenArmBigDataPoolAutoPauseProperties input =
     (case input of
        None \<Rightarrow> []
      | Some i \<Rightarrow>
          let delayInMinutes = (case DelayInMinutes i of None \<Rightarrow> 0 | Some n \<Rightarrow> n);
              enabled = (case AutoPause_Enabled i of None \<Rightarrow> False | Some b \<Rightarrow> b)
          in if \<not> enabled then []
             else [VMap [(''delay_in_minutes'', VInt32 delayInMinutes)]])"

definition flattenArmBigDataPoolAutoScaleProperties ::
    "AutoScaleProperties option \<Rightarrow> iface list" where
  "flattenArmBigDataPoolAutoScaleProperties input =
     (case input of
        None \<Rightarrow> []
      | Some i \<Rightarrow>
          let enabled = (case AutoScale_Enabled i of None \<Rightarrow> False | Some b \<Rightarrow> b)
          in if \<not> enabled then []
             else
               let maxNodeCount = (case MaxNodeCount i of None \<Rightarrow> 0 | Some n \<Rightarrow> n);
                   minNodeCount = (case MinNodeCount i of None \<Rightarrow> 0 | Some n \<Rightarrow> n)
               in [VMap [(''max_node_count'', VInt32 maxNodeCount),
                         (''min_node_count'', VInt32 minNodeCount)]])"

definition flattenArmBigDataPoolLibraryRequirements ::
    "LibraryRequirements option \<Rightarrow> iface list" where
  "flattenArmBigDataPoolLibraryRequirements input =
     (case input of
        None \<Rightarrow> []
      | Some i \<Rightarrow>
          let content = (case Content i of None \<Rightarrow> '''' | Some s \<Rightarrow> s);
              filename = (case Filename i of None \<Rightarrow> '''' | Some s \<Rightarrow> s)
          in [VMap [(''content'', VString content), (''filename'', VString filename)]])"

section \<open>Errors, identifiers and the remote API\<close>

text \<open>
  A Go \<open>error\<close> value. \<open>External\<close> is an error handed back by a collaborator (an SDK
  client, an ID parser), \<open>Errorf\<close> the \<open>fmt.Errorf\<close> that wraps a cause with the context
  of the failing step, \<open>ErrorfPlain\<close> a \<open>fmt.Errorf\<close> without a cause. A nil error is
  \<open>None\<close> of \<open>error option\<close>.
\<close>

datatype error = External string | Errorf string error | ErrorfPlain string

text \<open>How a call of one of the resource functions ends: it returns its error result
  (nil or not), or it panics.\<close>

datatype outcome = Returns "error option" | Panics go_panic

record SynapseWorkspaceId =
  Workspace_ResourceGroup :: string
  Workspace_Name :: string

record SynapseBigDataPoolId =
  Pool_Workspace :: SynapseWorkspaceId
  Pool_Name :: string

text \<open>\<open>autorest.Response\<close>: the HTTP status of the reply, when there was a reply.\<close>

record autorest_Response =
  StatusCode :: "nat option"

type_synonym tags = "(string \<times> string option) list"

record BigDataPoolResourceProperties =
  AutoPause :: "AutoPauseProperties option"
  AutoScale :: "AutoScaleProperties option"
  DefaultSparkLogFolder :: "string option"
  LibraryRequirement :: "LibraryRequirements option"
  NodeCount :: "int32 option"
  NodeSize :: string
  NodeSizeFamily :: string
  SparkEventsFolder :: "string option"
  SparkVersion :: "string option"

record BigDataPoolResourceInfo =
  Response :: autorest_Response
  ID :: "string option"
  Location :: "string option"
  Tags :: tags
  Properties :: "BigDataPoolResourceProperties option"

record Workspace =
  Workspace_Location :: "string option"

datatype future = Future nat

text \<open>The calls a resource function makes on the remote API, with their arguments.\<close>

datatype remote_call =
    BigDataPoolGet string string string
  | WorkspaceGet string string
  | BigDataPoolCreateOrUpdate string string string BigDataPoolResourceInfo
  | BigDataPoolDelete string string string
  | WaitForCompletionRef future

text \<open>
  What the resource functions are given and do not define themselves: the ID parsers, the
  helpers of the \<open>utils\<close>, \<open>tf\<close> and \<open>tags\<close> packages, the verdict of \<open>d.Set\<close> on a
  value, and the remote API behind \<open>meta\<close>. They are parameters. A remote call answers
  as a function of the calls made before it and of its arguments, so that a second
  \<open>Get\<close> may answer differently from the first.
\<close>

record env =
  parse_SynapseBigDataPoolID :: "string \<Rightarrow> error + SynapseBigDataPoolId"
  parse_SynapseWorkspaceID :: "string \<Rightarrow> SynapseWorkspaceId option \<times> error option"
  SynapseWorkspaceId_String :: "SynapseWorkspaceId \<Rightarrow> string"
  utils_ResponseWasNotFound :: "autorest_Response \<Rightarrow> bool"
  tf_ImportAsExistsError :: "string \<Rightarrow> string \<Rightarrow> error"
  tags_Expand :: "(string \<times> iface) list \<Rightarrow> tags"
  tags_Flatten :: "tags \<Rightarrow> iface"
  d_Set_error :: "string \<Rightarrow> iface \<Rightarrow> error option"
  client_Get ::
    "remote_call list \<Rightarrow> string \<Rightarrow> string \<Rightarrow> string \<Rightarrow> BigDataPoolResourceInfo \<times> error option"
  workspaceClient_Get ::
    "remote_call list \<Rightarrow> string \<Rightarrow> string \<Rightarrow> Workspace \<times> error option"
  client_CreateOrUpdate ::
    "remote_call list \<Rightarrow> string \<Rightarrow> string \<Rightarrow> string \<Rightarrow> BigDataPoolResourceInfo
       \<Rightarrow> future \<times> error option"
  client_Delete ::
    "remote_call list \<Rightarrow> string \<Rightarrow> string \<Rightarrow> string \<Rightarrow> future \<times> error option"
  future_WaitForCompletionRef :: "remote_call list \<Rightarrow> future \<Rightarrow> error option"

section \<open>The resource data\<close>

text \<open>
  The state a resource function works on: the \<open>schema.ResourceData\<close> \<open>d\<close> (its ID,
  whether the resource is new, its attributes by key) and the calls made on the remote
  API so far. An attribute holds the value last written to it, with the dynamic type it
  was written with; the conversions of the plugin SDK between \<open>d.Set\<close> and \<open>d.Get\<close>,
  the contexts and the timeouts are left out.
\<close>

record state =
  d_Id :: string
  d_IsNewResource :: bool
  d_attrs :: "string \<Rightarrow> iface option"
  calls :: "remote_call list"

definition d_Get :: "state \<Rightarrow> string \<Rightarrow> iface" where
  "d_Get s k = (case d_attrs s k of None \<Rightarrow> VNil | Some v \<Rightarrow> v)"

text \<open>\<open>d.Set(k, v)\<close>: the attribute is written unless the value is refused.\<close>

definition d_Set :: "env \<Rightarrow> string \<Rightarrow> iface \<Rightarrow> state \<Rightarrow> state \<times> error option" where
  "d_Set env k v s =
     (case d_Set_error env k v of
        Some e \<Rightarrow> (s, Some e)
      | None \<Rightarrow> (s\<lparr>d_attrs := (d_attrs s)(k \<mapsto> v)\<rparr>, None))"

definition d_SetId :: "string \<Rightarrow> state \<Rightarrow> state" where
  "d_SetId i s = s\<lparr>d_Id := i\<rparr>"

definition called :: "remote_call \<Rightarrow> state \<Rightarrow> state" where
  "called c s = s\<lparr>calls := calls s @ [c]\<rparr>"

text \<open>The calls a run from \<open>s\<close> to \<open>s'\<close> has added.\<close>

definition newCalls :: "state \<Rightarrow> state \<Rightarrow> remote_call list" where
  "newCalls s s' = drop (length (calls s)) (calls s')"

text \<open>
  Modelled from the spec: \<open>tags.FlattenAndSet\<close> is defined in the repository's \<open>tags\<close>
  package, which is not among the sources. Read "repopulates all fields from the
  authoritative response", the free-form tags among them: the helper is one \<open>d.Set\<close> of
  the key \<open>tags\<close> with the flattened tag map, its error wrapped.
\<close>

definition tags_FlattenAndSet :: "env \<Rightarrow> state \<Rightarrow> tags \<Rightarrow> state \<times> error option" where
  "tags_FlattenAndSet env s tagMap =
     (case d_Set env ''tags'' (tags_Flatten env tagMap) s of
        (s', Some e) \<Rightarrow> (s', Some (Errorf ''setting tags'' e))
      | (s', None) \<Rightarrow> (s', None))"

section \<open>Read\<close>

text \<open>Lines 250 to 264 of Read: the attributes set from the properties of the response.\<close>

definition setProperties ::
    "env \<Rightarrow> BigDataPoolResourceProperties \<Rightarrow> state \<Rightarrow> state \<times> error option" where
  "setProperties env props s =
     (case d_Set env ''auto_pause''
             (VList (flattenArmBigDataPoolAutoPauseProperties (AutoPause props))) s of
        (s1, Some e) \<Rightarrow> (s1, Some (Errorf ''setting auto_pause'' e))
      | (s1, None) \<Rightarrow>
     (case d_Set env ''auto_scale''
             (VList (flattenArmBigDataPoolAutoScaleProperties (AutoScale props))) s1 of
        (s2, Some e) \<Rightarrow> (s2, Some (Errorf ''setting auto_scale'' e))
      | (s2, None) \<Rightarrow>
     (case d_Set env ''library_requirement''
             (VList (flattenArmBigDataPoolLibraryRequirements (LibraryRequirement props))) s2 of
        (s3, Some e) \<Rightarrow> (s3, Some (Errorf ''setting library_requirement'' e))
      | (s3, None) \<Rightarrow>
          let s4 = fst (d_Set env ''node_count'' (VPtrInt32 (NodeCount props)) s3);
              s5 = fst (d_Set env ''node_size'' (VNodeSize (NodeSize props)) s4);
              s6 = fst (d_Set env ''node_size_family'' (VString (NodeSizeFamily props)) s5);
              s7 = fst (d_Set env ''spark_version'' (VPtrString (SparkVersion props)) s6)
          in (s7, None))))"

text \<open>Lines 248 to 265 of Read: the attributes are set from a response that was found.\<close>

definition repopulate ::
    "env \<Rightarrow> SynapseBigDataPoolId \<Rightarrow> BigDataPoolResourceInfo \<Rightarrow> state \<Rightarrow> state \<times> error option" where
  "repopulate env pid resp s =
     (let s1 = fst (d_Set env ''name'' (VString (Pool_Name pid)) s);
          s2 = fst (d_Set env ''synapse_workspace_id''
                      (VString (SynapseWorkspaceId_String env (Pool_Workspace pid))) s1)
      in (case Properties resp of
            None \<Rightarrow> tags_FlattenAndSet env s2 (Tags resp)
          | Some props \<Rightarrow>
              (case setProperties env props s2 of
                 (s3, Some e) \<Rightarrow> (s3, Some e)
               | (s3, None) \<Rightarrow> tags_FlattenAndSet env s3 (Tags resp))))"

definition resourceArmSynapseBigDataPoolRead :: "env \<Rightarrow> state \<Rightarrow> state \<times> error option" where
  "resourceArmSynapseBigDataPoolRead env s =
     (case parse_SynapseBigDataPoolID env (d_Id s) of
        Inl err \<Rightarrow> (s, Some err)
      | Inr pid \<Rightarrow>
          let rg = Workspace_ResourceGroup (Pool_Workspace pid);
              wn = Workspace_Name (Pool_Workspace pid);
              (resp, err) = client_Get env (calls s) rg wn (Pool_Name pid);
              s1 = called (BigDataPoolGet rg wn (Pool_Name pid)) s
          in (case err of
                Some e \<Rightarrow>
                  if utils_ResponseWasNotFound env (Response resp)
                  then (d_SetId [] s1, None)
                  else (s1, Some (Errorf ''retrieving Synapse BigDataPool'' e))
              | None \<Rightarrow> repopulate env pid resp s1))"

section \<open>Delete\<close>

definition resourceArmSynapseBigDataPoolDelete :: "env \<Rightarrow> state \<Rightarrow> state \<times> error option" where
  "resourceArmSynapseBigDataPoolDelete env s =
     (case parse_SynapseBigDataPoolID env (d_Id s) of
        Inl err \<Rightarrow> (s, Some err)
      | Inr pid \<Rightarrow>
          let rg = Workspace_ResourceGroup (Pool_Workspace pid);
              wn = Workspace_Name (Pool_Workspace pid);
              (fut, err) = client_Delete env (calls s) rg wn (Pool_Name pid);
              s1 = called (BigDataPoolDelete rg wn (Pool_Name pid)) s
          in (case err of
                Some e \<Rightarrow> (s1, Some (Errorf ''deleting Synapse BigDataPool'' e))
              | None \<Rightarrow>
                  (let err2 = future_WaitForCompletionRef env (calls s1) fut;
                       s2 = called (WaitForCompletionRef fut) s1
                   in (case err2 of
                         Some e \<Rightarrow>
                           (s2, Some (Errorf ''waiting for deleting Synapse BigDataPool'' e))
                       | None \<Rightarrow> (s2, None)))))"

section \<open>Create and update\<close>

text \<open>
  Lines 171 to 181: a new resource must not exist yet. An error of the \<open>Get\<close> ends the
  check unless the response was a not-found; the ID of the answer is tested whenever the
  check has not ended, also after a not-found.
\<close>

definition checkExisting ::
    "env \<Rightarrow> SynapseWorkspaceId \<Rightarrow> string \<Rightarrow> state \<Rightarrow> state \<times> error option" where
  "checkExisting env workspaceId name s =
     (if d_IsNewResource s
      then
        let rg = Workspace_ResourceGroup workspaceId;
            wn = Workspace_Name workspaceId;
            (existing, err) = client_Get env (calls s) rg wn name;
            s1 = called (BigDataPoolGet rg wn name) s
        in case (case err of
                   None \<Rightarrow> None
                 | Some e \<Rightarrow>
                     if \<not> utils_ResponseWasNotFound env (Response existing)
                     then Some (Errorf ''checking for present of existing Synapse BigDataPool'' e)
                     else None) of
             Some failure \<Rightarrow> (s1, Some failure)
           | None \<Rightarrow>
               (case ID existing of
                  None \<Rightarrow> (s1, None)
                | Some i \<Rightarrow>
                    if i \<noteq> []
                    then (s1, Some (tf_ImportAsExistsError env ''azurerm_synapse_big_data_pool'' i))
                    else (s1, None))
      else (s, None))"

text \<open>Lines 188 to 205: the payload, from the configuration and the workspace's location.\<close>

definition buildBigDataPoolInfo ::
    "env \<Rightarrow> state \<Rightarrow> Workspace \<Rightarrow> go_panic + BigDataPoolResourceInfo" where
  "buildBigDataPoolInfo env s workspace =
     andThen (assertList (d_Get s ''auto_scale'')) (\<lambda>autoScaleIn.
     andThen (expandArmBigDataPoolAutoScaleProperties autoScaleIn) (\<lambda>autoScale.
     andThen (assertList (d_Get s ''auto_pause'')) (\<lambda>autoPauseIn.
     andThen (expandArmBigDataPoolAutoPauseProperties autoPauseIn) (\<lambda>autoPause.
     andThen (assertString (d_Get s ''spark_log_folder'')) (\<lambda>sparkLogFolder.
     andThen (assertList (d_Get s ''library_requirement'')) (\<lambda>libraryIn.
     andThen (expandArmBigDataPoolLibraryRequirements libraryIn) (\<lambda>library.
     andThen (assertString (d_Get s ''node_size'')) (\<lambda>nodeSize.
     andThen (assertString (d_Get s ''node_size_family'')) (\<lambda>nodeSizeFamily.
     andThen (assertString (d_Get s ''spark_events_folder'')) (\<lambda>sparkEventsFolder.
     andThen (assertString (d_Get s ''spark_version'')) (\<lambda>sparkVersion.
     andThen (assertMap (d_Get s ''tags'')) (\<lambda>tagsIn.
       let props =
             \<lparr>AutoPause = autoPause,
              AutoScale = autoScale,
              DefaultSparkLogFolder = Some sparkLogFolder,
              LibraryRequirement = library,
              NodeCount = None,
              NodeSize = nodeSize,
              NodeSizeFamily = nodeSizeFamily,
              SparkEventsFolder = Some sparkEventsFolder,
              SparkVersion = Some sparkVersion\<rparr>;
           info = (\<lambda>p.
             \<lparr>Response = \<lparr>StatusCode = None\<rparr>,
              ID = None,
              Location = Workspace_Location workspace,
              Tags = tags_Expand env tagsIn,
              Properties = Some p\<rparr>)
       in case autoScale of
            None \<Rightarrow> Inl NilPointerDereference
          | Some a \<Rightarrow>
              (case AutoScale_Enabled a of
                 None \<Rightarrow> Inl NilPointerDereference
               | Some enabled \<Rightarrow>
                   if \<not> enabled
                   then andThen (assertInt (d_Get s ''node_count'')) (\<lambda>nodeCount.
                          Inr (info (props\<lparr>NodeCount := Some (ucast nodeCount)\<rparr>)))
                   else Inr (info props))))))))))))))"

text \<open>Lines 207 to 214: the write is submitted and its completion awaited.\<close>

definition submitAndWait ::
    "env \<Rightarrow> SynapseWorkspaceId \<Rightarrow> string \<Rightarrow> BigDataPoolResourceInfo \<Rightarrow> state
       \<Rightarrow> state \<times> error option" where
  "submitAndWait env workspaceId name bigDataPoolInfo s =
     (let rg = Workspace_ResourceGroup workspaceId;
          wn = Workspace_Name workspaceId;
          (fut, err) = client_CreateOrUpdate env (calls s) rg wn name bigDataPoolInfo;
          s1 = called (BigDataPoolCreateOrUpdate rg wn name bigDataPoolInfo) s
      in (case err of
            Some e \<Rightarrow> (s1, Some (Errorf ''creating Synapse BigDataPool'' e))
          | None \<Rightarrow>
              (let err2 = future_WaitForCompletionRef env (calls s1) fut;
                   s2 = called (WaitForCompletionRef fut) s1
               in (case err2 of
                     Some e \<Rightarrow>
                       (s2, Some (Errorf ''waiting on creating future for Synapse BigDataPool'' e))
                   | None \<Rightarrow> (s2, None)))))"

text \<open>Lines 216 to 226: the resource is read again, its ID kept, and Read run.\<close>

definition rereadAndStore ::
    "env \<Rightarrow> SynapseWorkspaceId \<Rightarrow> string \<Rightarrow> state \<Rightarrow> state \<times> error option" where
  "rereadAndStore env workspaceId name s =
     (let rg = Workspace_ResourceGroup workspaceId;
          wn = Workspace_Name workspaceId;
          (resp, err) = client_Get env (calls s) rg wn name;
          s1 = called (BigDataPoolGet rg wn name) s
      in case err of
           Some e \<Rightarrow> (s1, Some (Errorf ''retrieving Synapse BigDataPool'' e))
         | None \<Rightarrow>
             (case ID resp of
                None \<Rightarrow> (s1, Some (ErrorfPlain ''empty or nil ID returned for Synapse BigDataPool''))
              | Some i \<Rightarrow>
                  if i = []
                  then (s1, Some (ErrorfPlain ''empty or nil ID returned for Synapse BigDataPool''))
                  else resourceArmSynapseBigDataPoolRead env (d_SetId i s1)))"

definition resourceArmSynapseBigDataPoolCreateUpdate :: "env \<Rightarrow> state \<Rightarrow> state \<times> outcome" where
  "resourceArmSynapseBigDataPoolCreateUpdate env s =
     (case assertString (d_Get s ''name'') of
        Inl p \<Rightarrow> (s, Panics p)
      | Inr name \<Rightarrow>
     (case assertString (d_Get s ''synapse_workspace_id'') of
        Inl p \<Rightarrow> (s, Panics p)
      | Inr workspaceIdString \<Rightarrow>
     (case fst (parse_SynapseWorkspaceID env workspaceIdString) of
        None \<Rightarrow> (s, Panics NilPointerDereference)
      | Some workspaceId \<Rightarrow>
     (case checkExisting env workspaceId name s of
        (s1, Some e) \<Rightarrow> (s1, Returns (Some e))
      | (s1, None) \<Rightarrow>
          (let rg = Workspace_ResourceGroup workspaceId;
               wn = Workspace_Name workspaceId;
               (workspace, err) = workspaceClient_Get env (calls s1) rg wn;
               s2 = called (WorkspaceGet rg wn) s1
           in (case err of
                 Some e \<Rightarrow> (s2, Returns (Some (Errorf ''reading Synapse workspace'' e)))
               | None \<Rightarrow>
              (case buildBigDataPoolInfo env s2 workspace of
                 Inl p \<Rightarrow> (s2, Panics p)
               | Inr bigDataPoolInfo \<Rightarrow>
              (case submitAndWait env workspaceId name bigDataPoolInfo s2 of
                 (s3, Some e) \<Rightarrow> (s3, Returns (Some e))
               | (s3, None) \<Rightarrow>
                   (case rereadAndStore env workspaceId name s3 of
                      (s4, e) \<Rightarrow> (s4, Returns e))))))))))"

text \<open>An element of a list attribute whose \<open>Elem\<close> is a \<open>schema.Resource\<close> is a block: a
  map.\<close>

fun isBlock :: "iface \<Rightarrow> bool" where
  "isBlock (VMap _) = True"
| "isBlock _ = False"

section \<open>Example runs\<close>

text \<open>
  A concrete environment for evaluating the resource functions: workspace \<open>ws1\<close> of
  resource group \<open>rg1\<close>, a pool \<open>pool1\<close> that the service knows with three nodes, an
  auto-pause delay of 15 minutes and Spark folders of its own, and a service where every
  call succeeds. The scenarios below change single answers of it.
\<close>

definition example_workspace_id :: SynapseWorkspaceId where
  "example_workspace_id = \<lparr>Workspace_ResourceGroup = ''rg1'', Workspace_Name = ''ws1''\<rparr>"

definition example_pool :: BigDataPoolResourceInfo where
  "example_pool =
     \<lparr>Response = \<lparr>StatusCode = Some 200\<rparr>,
      ID = Some ''pool-id'',
      Location = Some ''westeurope'',
      Tags = [],
      Properties = Some
        \<lparr>AutoPause = Some \<lparr>DelayInMinutes = Some 15, AutoPause_Enabled = Some True\<rparr>,
         AutoScale = Some \<lparr>MinNodeCount = None, AutoScale_Enabled = Some False,
                           MaxNodeCount = None\<rparr>,
         DefaultSparkLogFolder = Some ''/remote/logs'',
         LibraryRequirement = None,
         NodeCount = Some 3,
         NodeSize = ''Small'',
         NodeSizeFamily = ''MemoryOptimized'',
         SparkEventsFolder = Some ''/remote/events'',
         SparkVersion = Some ''2.4''\<rparr>\<rparr>"

text \<open>The answer of a \<open>Get\<close> that found nothing, with the HTTP status it carries.\<close>

definition no_pool :: "nat \<Rightarrow> BigDataPoolResourceInfo" where
  "no_pool status =
     \<lparr>Response = \<lparr>StatusCode = Some status\<rparr>, ID = None, Location = None, Tags = [],
      Properties = None\<rparr>"

definition example_env :: env where
  "example_env =
     \<lparr>parse_SynapseBigDataPoolID = (\<lambda>i.
        if i = ''pool-id''
        then Inr \<lparr>Pool_Workspace = example_workspace_id, Pool_Name = ''pool1''\<rparr>
        else Inl (External ''not a big data pool ID'')),
      parse_SynapseWorkspaceID = (\<lambda>i.
        if i = ''ws-id'' then (Some example_workspace_id, None)
        else (None, Some (External ''not a workspace ID''))),
      SynapseWorkspaceId_String = (\<lambda>w. ''ws-id''),
      utils_ResponseWasNotFound = (\<lambda>r. StatusCode r = Some 404),
      tf_ImportAsExistsError = (\<lambda>resource i. ErrorfPlain ''the resource already exists''),
      tags_Expand = (\<lambda>m. []),
      tags_Flatten = (\<lambda>t. VMap []),
      d_Set_error = (\<lambda>k v. None),
      client_Get = (\<lambda>before rg wn n. (example_pool, None)),
      workspaceClient_Get = (\<lambda>before rg wn. (\<lparr>Workspace_Location = Some ''westeurope''\<rparr>, None)),
      client_CreateOrUpdate = (\<lambda>before rg wn n info. (Future 1, None)),
      client_Delete = (\<lambda>before rg wn n. (Future 2, None)),
      future_WaitForCompletionRef = (\<lambda>before fut. None)\<rparr>"

text \<open>A configuration with a fixed node count and no \<open>auto_scale\<close> block.\<close>

definition example_config :: "string \<Rightarrow> iface option" where
  "example_config = map_of
     [(''name'', VString ''pool1''),
      (''synapse_workspace_id'', VString ''ws-id''),
      (''node_size_family'', VString ''MemoryOptimized''),
      (''node_size'', VString ''Small''),
      (''node_count'', VInt 3),
      (''auto_scale'', VList []),
      (''auto_pause'', VList [VMap [(''delay_in_minutes'', VInt 15)]]),
      (''spark_events_folder'', VString ''/events''),
      (''spark_log_folder'', VString ''/logs''),
      (''library_requirement'', VList []),
      (''spark_version'', VString ''2.4''),
      (''tags'', VMap [])]"

text \<open>The resource as Terraform holds it once created, and as it is before Create.\<close>

definition example_state :: state where
  "example_state =
     \<lparr>d_Id = ''pool-id'', d_IsNewResource = False, d_attrs = example_config, calls = []\<rparr>"

definition example_new_state :: state where
  "example_new_state =
     \<lparr>d_Id = [], d_IsNewResource = True, d_attrs = example_config, calls = []\<rparr>"

text \<open>The pool is gone: every \<open>Get\<close> answers 404.\<close>

definition env_pool_gone :: env where
  "env_pool_gone = example_env
     \<lparr>client_Get := (\<lambda>before rg wn n. (no_pool 404, Some (External ''404 Not Found'')))\<rparr>"

text \<open>The service is down: every \<open>Get\<close> answers 500.\<close>

definition env_service_down :: env where
  "env_service_down = example_env
     \<lparr>client_Get := (\<lambda>before rg wn n. (no_pool 500, Some (External ''500 Internal Server Error'')))\<rparr>"

text \<open>
  A creation: the first \<open>Get\<close> of a run answers 404, every later one finds the pool.
\<close>

definition env_create :: env where
  "env_create = example_env
     \<lparr>client_Get := (\<lambda>before rg wn n.
        if before = [] then (no_pool 404, Some (External ''404 Not Found''))
        else (example_pool, None))\<rparr>"

text \<open>The same creation when the workspace cannot be read.\<close>

definition env_workspace_unreadable :: env where
  "env_workspace_unreadable = env_create
     \<lparr>workspaceClient_Get := (\<lambda>before rg wn.
        (\<lparr>Workspace_Location = None\<rparr>, Some (External ''403 Forbidden'')))\<rparr>"

text \<open>A service whose \<open>Get\<close> succeeds but carries no ID.\<close>

definition env_no_id :: env where
  "env_no_id = example_env
     \<lparr>client_Get := (\<lambda>before rg wn n. (example_pool\<lparr>ID := None\<rparr>, None))\<rparr>"

text \<open>The payload Create and Update build from \<open>example_config\<close>.\<close>

definition example_payload :: BigDataPoolResourceInfo where
  "example_payload =
     \<lparr>Response = \<lparr>StatusCode = None\<rparr>,
      ID = None,
      Location = Some ''westeurope'',
      Tags = [],
      Properties = Some
        \<lparr>AutoPause = Some \<lparr>DelayInMinutes = Some 15, AutoPause_Enabled = Some True\<rparr>,
         AutoScale = Some \<lparr>MinNodeCount = None, AutoScale_Enabled = Some False,
                           MaxNodeCount = None\<rparr>,
         DefaultSparkLogFolder = Some ''/logs'',
         LibraryRequirement = None,
         NodeCount = Some 3,
         NodeSize = ''Small'',
         NodeSizeFamily = ''MemoryOptimized'',
         SparkEventsFolder = Some ''/events'',
         SparkVersion = Some ''2.4''\<rparr>\<rparr>"

text \<open>The same resource configured with an \<open>auto_scale\<close> block instead of a node count, and
  the payload built from it.\<close>

definition example_autoscale_state :: state where
  "example_autoscale_state = example_state
     \<lparr>d_attrs := example_config
        (''node_count'' \<mapsto> VInt 0,
         ''auto_scale'' \<mapsto> VList [VMap [(''min_node_count'', VInt 3),
                                             (''max_node_count'', VInt 10)]])\<rparr>"

definition example_autoscale_payload :: BigDataPoolResourceInfo where
  "example_autoscale_payload =
     \<lparr>Response = \<lparr>StatusCode = None\<rparr>,
      ID = None,
      Location = Some ''westeurope'',
      Tags = [],
      Properties = Some
        \<lparr>AutoPause = Some \<lparr>DelayInMinutes = Some 15, AutoPause_Enabled = Some True\<rparr>,
         AutoScale = Some \<lparr>MinNodeCount = Some 3, AutoScale_Enabled = Some True,
                           MaxNodeCount = Some 10\<rparr>,
         DefaultSparkLogFolder = Some ''/logs'',
         LibraryRequirement = None,
         NodeCount = None,
         NodeSize = ''Small'',
         NodeSizeFamily = ''MemoryOptimized'',
         SparkEventsFolder = Some ''/events'',
         SparkVersion = Some ''2.4''\<rparr>\<rparr>"

section \<open>Facts used throughout\<close>

lemmas conv_defs = expandArmBigDataPoolAutoPauseProperties_def
  expandArmBigDataPoolAutoScaleProperties_def expandArmBigDataPoolLibraryRequirements_def
  flattenArmBigDataPoolAutoPauseProperties_def flattenArmBigDataPoolAutoScaleProperties_def
  flattenArmBigDataPoolLibraryRequirements_def andThen_def index_def

lemmas example_defs = example_env_def example_workspace_id_def example_pool_def no_pool_def
  example_config_def example_state_def example_new_state_def env_create_def env_no_id_def
  example_payload_def

lemmas state_defs = d_Get_def d_Set_def d_SetId_def called_def newCalls_def
  tags_FlattenAndSet_def

text \<open>Reading back as \<open>int32\<close> what was widened from \<open>int32\<close> to \<open>int\<close> loses nothing.\<close>

lemma ucast_scast_int32: "ucast (scast (n :: int32) :: go_int) = n"
  by (rule bit_word_eqI) (simp add: bit_simps)

text \<open>\<open>d.Set\<close> writes one attribute and nothing else.\<close>

lemma d_Set_other:
  "k' \<noteq> k \<Longrightarrow> d_attrs (fst (d_Set env k v s)) k' = d_attrs s k'"
  by (simp add: d_Set_def split: option.splits)

lemma d_Set_frame:
  "calls (fst (d_Set env k v s)) = calls s"
  "d_Id (fst (d_Set env k v s)) = d_Id s"
  "d_IsNewResource (fst (d_Set env k v s)) = d_IsNewResource s"
  by (simp_all add: d_Set_def split: option.splits)

lemma tags_FlattenAndSet_fst:
  "fst (tags_FlattenAndSet env s t) = fst (d_Set env ''tags'' (tags_Flatten env t) s)"
  by (simp add: tags_FlattenAndSet_def case_prod_beta split: option.splits)

lemma setProperties_other:
  assumes "k \<noteq> ''auto_pause''" "k \<noteq> ''auto_scale''" "k \<noteq> ''library_requirement''"
    "k \<noteq> ''node_count''" "k \<noteq> ''node_size''" "k \<noteq> ''node_size_family''"
    "k \<noteq> ''spark_version''"
  shows "d_attrs (fst (setProperties env props s)) k = d_attrs s k"
  using assms
  by (simp add: setProperties_def Let_def case_prod_beta d_Set_other split: option.splits)

lemma setProperties_frame:
  "calls (fst (setProperties env props s)) = calls s"
  "d_Id (fst (setProperties env props s)) = d_Id s"
  "d_IsNewResource (fst (setProperties env props s)) = d_IsNewResource s"
  by (simp_all add: setProperties_def Let_def case_prod_beta d_Set_frame split: option.splits)

lemma repopulate_other:
  assumes "k \<noteq> ''name''" "k \<noteq> ''synapse_workspace_id''" "k \<noteq> ''tags''"
    "k \<noteq> ''auto_pause''" "k \<noteq> ''auto_scale''" "k \<noteq> ''library_requirement''"
    "k \<noteq> ''node_count''" "k \<noteq> ''node_size''" "k \<noteq> ''node_size_family''"
    "k \<noteq> ''spark_version''"
  shows "d_attrs (fst (repopulate env pid resp s)) k = d_attrs s k"
  using assms
  by (simp add: repopulate_def Let_def case_prod_beta tags_FlattenAndSet_fst d_Set_other
        setProperties_other split: option.splits)

lemma repopulate_frame:
  "calls (fst (repopulate env pid resp s)) = calls s"
  "d_Id (fst (repopulate env pid resp s)) = d_Id s"
  "d_IsNewResource (fst (repopulate env pid resp s)) = d_IsNewResource s"
  by (simp_all add: repopulate_def Let_def case_prod_beta tags_FlattenAndSet_fst d_Set_frame
        setProperties_frame split: option.splits)

text \<open>Read calls the remote API once, when the ID parses, and never otherwise.\<close>

lemma Read_calls:
  "calls (fst (resourceArmSynapseBigDataPoolRead env s)) =
     (case parse_SynapseBigDataPoolID env (d_Id s) of
        Inl e \<Rightarrow> calls s
      | Inr pid \<Rightarrow> calls s @ [BigDataPoolGet (Workspace_ResourceGroup (Pool_Workspace pid))
                                (Workspace_Name (Pool_Workspace pid)) (Pool_Name pid)])"
  by (simp add: resourceArmSynapseBigDataPoolRead_def Let_def case_prod_beta called_def
        d_SetId_def repopulate_frame split: sum.splits option.splits)

text \<open>The identifier after Read: cleared when the pool was reported gone, kept otherwise.\<close>

lemma Read_Id:
  "d_Id (fst (resourceArmSynapseBigDataPoolRead env s)) =
     (case parse_SynapseBigDataPoolID env (d_Id s) of
        Inl e \<Rightarrow> d_Id s
      | Inr pid \<Rightarrow>
          (let answer = client_Get env (calls s) (Workspace_ResourceGroup (Pool_Workspace pid))
                          (Workspace_Name (Pool_Workspace pid)) (Pool_Name pid)
           in if snd answer \<noteq> None \<and> utils_ResponseWasNotFound env (Response (fst answer))
              then [] else d_Id s))"
  by (simp add: resourceArmSynapseBigDataPoolRead_def Let_def case_prod_beta called_def
        d_SetId_def repopulate_frame split: sum.splits option.splits)

text \<open>What the steps of Create and Update add to the calls, and what they leave alone.\<close>

lemma checkExisting_fst:
  "fst (checkExisting env w name s) =
     (if d_IsNewResource s
      then called (BigDataPoolGet (Workspace_ResourceGroup w) (Workspace_Name w) name) s
      else s)"
  by (simp add: checkExisting_def Let_def case_prod_beta split: option.splits)

lemma submitAndWait_calls:
  "calls (fst (submitAndWait env w name info s)) =
     calls s @ BigDataPoolCreateOrUpdate (Workspace_ResourceGroup w) (Workspace_Name w) name info
       # (case snd (client_CreateOrUpdate env (calls s) (Workspace_ResourceGroup w)
                     (Workspace_Name w) name info) of
            Some e \<Rightarrow> []
          | None \<Rightarrow> [WaitForCompletionRef
                       (fst (client_CreateOrUpdate env (calls s) (Workspace_ResourceGroup w)
                              (Workspace_Name w) name info))])"
  by (simp add: submitAndWait_def Let_def case_prod_beta called_def split: option.splits)

lemma submitAndWait_frame:
  "d_attrs (fst (submitAndWait env w name info s)) = d_attrs s"
  "d_Id (fst (submitAndWait env w name info s)) = d_Id s"
  by (simp_all add: submitAndWait_def Let_def case_prod_beta called_def split: option.splits)

lemma rereadAndStore_calls:
  "calls (fst (rereadAndStore env w name s)) =
     calls s @ BigDataPoolGet (Workspace_ResourceGroup w) (Workspace_Name w) name
       # (case snd (client_Get env (calls s) (Workspace_ResourceGroup w) (Workspace_Name w) name) of
            Some e \<Rightarrow> []
          | None \<Rightarrow>
              (case ID (fst (client_Get env (calls s) (Workspace_ResourceGroup w)
                              (Workspace_Name w) name)) of
                 None \<Rightarrow> []
               | Some i \<Rightarrow>
                   if i = [] then []
                   else (case parse_SynapseBigDataPoolID env i of
                           Inl e \<Rightarrow> []
                         | Inr pid \<Rightarrow>
                             [BigDataPoolGet (Workspace_ResourceGroup (Pool_Workspace pid))
                                (Workspace_Name (Pool_Workspace pid)) (Pool_Name pid)])))"
  by (simp add: rereadAndStore_def Let_def case_prod_beta called_def d_SetId_def Read_calls
        split: option.splits sum.splits)

text \<open>The payload is built from the attributes alone.\<close>

lemma build_attrs_cong:
  assumes "d_attrs s' = d_attrs s"
  shows "buildBigDataPoolInfo env s' ws = buildBigDataPoolInfo env s ws"
proof -
  have same: "d_Get s' = d_Get s"
    by (rule ext) (simp add: d_Get_def assms)
  show ?thesis
    unfolding buildBigDataPoolInfo_def same by (rule refl)
qed

lemma build_calls: "buildBigDataPoolInfo env (s\<lparr>calls := cs\<rparr>) ws = buildBigDataPoolInfo env s ws"
  by (rule build_attrs_cong) simp

lemma andThen_Inr: "(andThen m f = Inr y) = (\<exists>x. m = Inr x \<and> f x = Inr y)"
  by (cases m) (simp_all add: andThen_def)

section \<open>Properties of the converters\<close>

text \<open>
  C7. On the empty list the expand converters give the default: for \<open>auto_pause\<close> and
  for \<open>auto_scale\<close> a struct whose \<open>Enabled\<close> points to false and whose other fields are
  nil, for \<open>library_requirement\<close> the nil pointer.
\<close>

theorem expand_empty_list:
  "expandArmBigDataPoolAutoPauseProperties [] =
     Inr (Some \<lparr>DelayInMinutes = None, AutoPause_Enabled = Some False\<rparr>)
   \<and> expandArmBigDataPoolAutoScaleProperties [] =
     Inr (Some \<lparr>MinNodeCount = None, AutoScale_Enabled = Some False, MaxNodeCount = None\<rparr>)
   \<and> expandArmBigDataPoolLibraryRequirements [] = Inr None"
  by (simp add: conv_defs)

text \<open>
  C10. On the list whose one element is nil, the auto-scale converter returns what it
  returns on the empty list, the disabled struct, and does not touch the element; the
  auto-pause and the library-requirement converters have no such guard, and their type
  assertion on the nil element panics.
\<close>

theorem expand_nil_element:
  "expandArmBigDataPoolAutoScaleProperties [VNil] = expandArmBigDataPoolAutoScaleProperties []
   \<and> expandArmBigDataPoolAutoScaleProperties [VNil] =
     Inr (Some \<lparr>MinNodeCount = None, AutoScale_Enabled = Some False, MaxNodeCount = None\<rparr>)
   \<and> expandArmBigDataPoolAutoPauseProperties [VNil] = Inl TypeAssertionFailed
   \<and> expandArmBigDataPoolLibraryRequirements [VNil] = Inl TypeAssertionFailed"
  by (simp add: conv_defs)

text \<open>
  C9. An auto-pause or auto-scale struct whose \<open>Enabled\<close> is nil or points to false
  flattens to the empty list, whatever delay or node counts it carries.
\<close>

theorem flatten_disabled_is_empty:
  "(AutoPause_Enabled p = None \<or> AutoPause_Enabled p = Some False
      \<longrightarrow> flattenArmBigDataPoolAutoPauseProperties (Some p) = [])
   \<and> (AutoScale_Enabled q = None \<or> AutoScale_Enabled q = Some False
      \<longrightarrow> flattenArmBigDataPoolAutoScaleProperties (Some q) = [])"
  by (auto simp add: conv_defs)

theorem flatten_disabled_is_empty_witness:
  "flattenArmBigDataPoolAutoPauseProperties
     (Some \<lparr>DelayInMinutes = Some 15, AutoPause_Enabled = Some False\<rparr>) = []
   \<and> flattenArmBigDataPoolAutoScaleProperties
     (Some \<lparr>MinNodeCount = Some 3, AutoScale_Enabled = None, MaxNodeCount = Some 10\<rparr>) = []"
  using flatten_disabled_is_empty
          [of "\<lparr>DelayInMinutes = Some 15, AutoPause_Enabled = Some False\<rparr>"
              "\<lparr>MinNodeCount = Some 3, AutoScale_Enabled = None, MaxNodeCount = Some 10\<rparr>"]
  by simp

text \<open>
  C1, as the spec states it, fails: expand after flatten is not the identity on every
  remote value. The nil auto-pause pointer comes back as the disabled struct, and a
  disabled auto-pause that still carries a delay comes back without it.
\<close>

theorem roundtrip_counterexample:
  "expandArmBigDataPoolAutoPauseProperties (flattenArmBigDataPoolAutoPauseProperties None)
     \<noteq> Inr None
   \<and> expandArmBigDataPoolAutoPauseProperties
       (flattenArmBigDataPoolAutoPauseProperties
         (Some \<lparr>DelayInMinutes = Some 15, AutoPause_Enabled = Some False\<rparr>))
     \<noteq> Inr (Some \<lparr>DelayInMinutes = Some 15, AutoPause_Enabled = Some False\<rparr>)"
  by (simp add: conv_defs)

text \<open>
  What flatten drops, expand cannot restore: every auto-pause and auto-scale value that
  is nil or not enabled comes back as the disabled struct, and a nil field of an enabled
  value or of a library requirement is flattened as the zero value.
\<close>

lemma roundtrip_normalises:
  "AutoPause_Enabled p \<noteq> Some True \<Longrightarrow>
     expandArmBigDataPoolAutoPauseProperties (flattenArmBigDataPoolAutoPauseProperties (Some p))
       = Inr (Some \<lparr>DelayInMinutes = None, AutoPause_Enabled = Some False\<rparr>)"
  "AutoScale_Enabled q \<noteq> Some True \<Longrightarrow>
     expandArmBigDataPoolAutoScaleProperties (flattenArmBigDataPoolAutoScaleProperties (Some q))
       = Inr (Some \<lparr>MinNodeCount = None, AutoScale_Enabled = Some False, MaxNodeCount = None\<rparr>)"
  "expandArmBigDataPoolAutoScaleProperties (flattenArmBigDataPoolAutoScaleProperties None)
       = Inr (Some \<lparr>MinNodeCount = None, AutoScale_Enabled = Some False, MaxNodeCount = None\<rparr>)"
  "expandArmBigDataPoolLibraryRequirements
     (flattenArmBigDataPoolLibraryRequirements (Some \<lparr>Content = None, Filename = None\<rparr>))
       = Inr (Some \<lparr>Content = Some [], Filename = Some []\<rparr>)"
  by (auto simp add: conv_defs split: option.splits)

text \<open>
  Flatten writes the numbers of an enabled policy as \<open>int32\<close>, and expand asserts \<open>int\<close>:
  applied to the very list flatten returned, expand panics. The two meet through the
  resource data, whose \<open>TypeInt\<close> attributes are \<open>int\<close>.
\<close>

lemma expand_of_flattened_enabled_panics:
  "expandArmBigDataPoolAutoPauseProperties
     (flattenArmBigDataPoolAutoPauseProperties
       (Some \<lparr>DelayInMinutes = Some n, AutoPause_Enabled = Some True\<rparr>))
     = Inl TypeAssertionFailed"
  "expandArmBigDataPoolAutoScaleProperties
     (flattenArmBigDataPoolAutoScaleProperties
       (Some \<lparr>MinNodeCount = Some lo, AutoScale_Enabled = Some True, MaxNodeCount = Some hi\<rparr>))
     = Inl TypeAssertionFailed"
  by (simp_all add: conv_defs)

text \<open>
  C1, amended. Expand after flatten is the identity on the values expand itself produces:
  the disabled auto-pause and auto-scale structs, the nil library requirement, and a
  library requirement with both fields set. For an enabled auto-pause or auto-scale with
  all fields set, flatten gives the block with the same numbers as \<open>int32\<close>, and expand of
  the block with those numbers as \<open>int\<close> is the value again.
\<close>

theorem roundtrip_canonical:
  "expandArmBigDataPoolAutoPauseProperties
     (flattenArmBigDataPoolAutoPauseProperties
       (Some \<lparr>DelayInMinutes = None, AutoPause_Enabled = Some False\<rparr>))
     = Inr (Some \<lparr>DelayInMinutes = None, AutoPause_Enabled = Some False\<rparr>)
   \<and> expandArmBigDataPoolAutoScaleProperties
     (flattenArmBigDataPoolAutoScaleProperties
       (Some \<lparr>MinNodeCount = None, AutoScale_Enabled = Some False, MaxNodeCount = None\<rparr>))
     = Inr (Some \<lparr>MinNodeCount = None, AutoScale_Enabled = Some False, MaxNodeCount = None\<rparr>)
   \<and> expandArmBigDataPoolLibraryRequirements (flattenArmBigDataPoolLibraryRequirements None)
     = Inr None
   \<and> expandArmBigDataPoolLibraryRequirements
     (flattenArmBigDataPoolLibraryRequirements (Some \<lparr>Content = Some c, Filename = Some f\<rparr>))
     = Inr (Some \<lparr>Content = Some c, Filename = Some f\<rparr>)
   \<and> flattenArmBigDataPoolAutoPauseProperties
       (Some \<lparr>DelayInMinutes = Some n, AutoPause_Enabled = Some True\<rparr>)
     = [VMap [(''delay_in_minutes'', VInt32 n)]]
   \<and> expandArmBigDataPoolAutoPauseProperties [VMap [(''delay_in_minutes'', VInt (scast n))]]
     = Inr (Some \<lparr>DelayInMinutes = Some n, AutoPause_Enabled = Some True\<rparr>)
   \<and> flattenArmBigDataPoolAutoScaleProperties
       (Some \<lparr>MinNodeCount = Some lo, AutoScale_Enabled = Some True, MaxNodeCount = Some hi\<rparr>)
     = [VMap [(''max_node_count'', VInt32 hi), (''min_node_count'', VInt32 lo)]]
   \<and> expandArmBigDataPoolAutoScaleProperties
       [VMap [(''max_node_count'', VInt (scast hi)), (''min_node_count'', VInt (scast lo))]]
     = Inr (Some \<lparr>MinNodeCount = Some lo, AutoScale_Enabled = Some True, MaxNodeCount = Some hi\<rparr>)"
  by (simp add: conv_defs ucast_scast_int32)

section \<open>Properties of Read\<close>

text \<open>
  C3. When the \<open>Get\<close> of Read fails with a not-found response, Read sets the ID to the
  empty string and returns nil; when it fails otherwise, Read returns an error and the ID
  is what it was.
\<close>

theorem read_get_failure:
  assumes "parse_SynapseBigDataPoolID env (d_Id s) = Inr pid"
    and "client_Get env (calls s) (Workspace_ResourceGroup (Pool_Workspace pid))
           (Workspace_Name (Pool_Workspace pid)) (Pool_Name pid) = (resp, Some e)"
  shows "(utils_ResponseWasNotFound env (Response resp) \<longrightarrow>
            snd (resourceArmSynapseBigDataPoolRead env s) = None
          \<and> d_Id (fst (resourceArmSynapseBigDataPoolRead env s)) = [])
       \<and> (\<not> utils_ResponseWasNotFound env (Response resp) \<longrightarrow>
            snd (resourceArmSynapseBigDataPoolRead env s) \<noteq> None
          \<and> d_Id (fst (resourceArmSynapseBigDataPoolRead env s)) = d_Id s)"
  using assms by (simp add: resourceArmSynapseBigDataPoolRead_def state_defs)

theorem read_get_failure_witness:
  "snd (resourceArmSynapseBigDataPoolRead env_pool_gone example_state) = None
   \<and> d_Id (fst (resourceArmSynapseBigDataPoolRead env_pool_gone example_state)) = []
   \<and> snd (resourceArmSynapseBigDataPoolRead env_service_down example_state) \<noteq> None
   \<and> d_Id (fst (resourceArmSynapseBigDataPoolRead env_service_down example_state)) = ''pool-id''"
  using read_get_failure [of env_pool_gone example_state
          "\<lparr>Pool_Workspace = example_workspace_id, Pool_Name = ''pool1''\<rparr>"
          "no_pool 404" "External ''404 Not Found''"]
        read_get_failure [of env_service_down example_state
          "\<lparr>Pool_Workspace = example_workspace_id, Pool_Name = ''pool1''\<rparr>"
          "no_pool 500" "External ''500 Internal Server Error''"]
  by (simp add: example_defs env_pool_gone_def env_service_down_def)

text \<open>
  Read has no \<open>d.Set\<close> for \<open>spark_events_folder\<close> or \<open>spark_log_folder\<close>: whatever the
  service answers, the two attributes are after Read what they were before.
\<close>

lemma Read_spark_folders_untouched:
  "d_attrs (fst (resourceArmSynapseBigDataPoolRead env s)) ''spark_events_folder''
     = d_attrs s ''spark_events_folder''
   \<and> d_attrs (fst (resourceArmSynapseBigDataPoolRead env s)) ''spark_log_folder''
     = d_attrs s ''spark_log_folder''"
  by (simp add: resourceArmSynapseBigDataPoolRead_def Let_def case_prod_beta called_def
        d_SetId_def repopulate_other split: sum.splits option.splits)

text \<open>
  C2 does not hold of the code. In the example the service answers with the folders
  \<open>/remote/events\<close> and \<open>/remote/logs\<close>; Read succeeds, and the resource still holds
  \<open>/events\<close> and \<open>/logs\<close>.
\<close>

theorem read_keeps_stale_spark_folders:
  "snd (resourceArmSynapseBigDataPoolRead example_env example_state) = None
   \<and> client_Get example_env [] ''rg1'' ''ws1'' ''pool1'' = (example_pool, None)
   \<and> map_option SparkEventsFolder (Properties example_pool) = Some (Some ''/remote/events'')
   \<and> map_option DefaultSparkLogFolder (Properties example_pool) = Some (Some ''/remote/logs'')
   \<and> d_Get (fst (resourceArmSynapseBigDataPoolRead example_env example_state))
        ''spark_events_folder'' = VString ''/events''
   \<and> d_Get (fst (resourceArmSynapseBigDataPoolRead example_env example_state))
        ''spark_log_folder'' = VString ''/logs''"
proof -
  have ok: "snd (resourceArmSynapseBigDataPoolRead example_env example_state) = None"
    by (simp add: resourceArmSynapseBigDataPoolRead_def repopulate_def setProperties_def
          state_defs Let_def example_defs)
  have stale:
    "d_Get (fst (resourceArmSynapseBigDataPoolRead example_env example_state))
        ''spark_events_folder'' = VString ''/events''"
    "d_Get (fst (resourceArmSynapseBigDataPoolRead example_env example_state))
        ''spark_log_folder'' = VString ''/logs''"
    by (simp_all add: d_Get_def Read_spark_folders_untouched example_state_def
          example_config_def)
  show ?thesis
    using ok stale by (simp add: example_env_def example_pool_def)
qed

section \<open>Properties of Delete\<close>

text \<open>
  The calls of Delete, in their order: none when the ID does not parse, the submission
  alone when it fails, the submission and then the wait otherwise.
\<close>

lemma delete_calls_in_order:
  "(case parse_SynapseBigDataPoolID env (d_Id s) of
      Inl err \<Rightarrow> newCalls s (fst (resourceArmSynapseBigDataPoolDelete env s)) = []
    | Inr pid \<Rightarrow>
        (let submit = BigDataPoolDelete (Workspace_ResourceGroup (Pool_Workspace pid))
                        (Workspace_Name (Pool_Workspace pid)) (Pool_Name pid);
             answer = client_Delete env (calls s) (Workspace_ResourceGroup (Pool_Workspace pid))
                        (Workspace_Name (Pool_Workspace pid)) (Pool_Name pid)
         in newCalls s (fst (resourceArmSynapseBigDataPoolDelete env s)) =
              (if snd answer = None then [submit, WaitForCompletionRef (fst answer)]
               else [submit])))"
  by (simp add: resourceArmSynapseBigDataPoolDelete_def state_defs Let_def
           split: sum.splits prod.splits option.splits)

text \<open>
  C8. Delete returns nil exactly when the ID parses, the submission of the delete succeeds
  and the wait for its completion succeeds, and returns an error in every other run. Once
  the delete is submitted, Delete waits for the future the submission returned before it
  returns: its calls are the submission and then the wait.
\<close>

theorem delete_submits_then_waits:
  "(snd (resourceArmSynapseBigDataPoolDelete env s) = None) =
     (\<exists>pid fut.
        parse_SynapseBigDataPoolID env (d_Id s) = Inr pid
      \<and> client_Delete env (calls s) (Workspace_ResourceGroup (Pool_Workspace pid))
           (Workspace_Name (Pool_Workspace pid)) (Pool_Name pid) = (fut, None)
      \<and> future_WaitForCompletionRef env
           (calls s @ [BigDataPoolDelete (Workspace_ResourceGroup (Pool_Workspace pid))
                         (Workspace_Name (Pool_Workspace pid)) (Pool_Name pid)]) fut = None)
   \<and> (\<forall>pid fut.
        parse_SynapseBigDataPoolID env (d_Id s) = Inr pid
      \<and> client_Delete env (calls s) (Workspace_ResourceGroup (Pool_Workspace pid))
           (Workspace_Name (Pool_Workspace pid)) (Pool_Name pid) = (fut, None)
      \<longrightarrow> newCalls s (fst (resourceArmSynapseBigDataPoolDelete env s)) =
           [BigDataPoolDelete (Workspace_ResourceGroup (Pool_Workspace pid))
              (Workspace_Name (Pool_Workspace pid)) (Pool_Name pid),
            WaitForCompletionRef fut])"
  by (auto simp add: resourceArmSynapseBigDataPoolDelete_def state_defs Let_def
           split: sum.splits prod.splits option.splits)

theorem delete_submits_then_waits_witness:
  "snd (resourceArmSynapseBigDataPoolDelete example_env example_state) = None
   \<and> newCalls example_state (fst (resourceArmSynapseBigDataPoolDelete example_env example_state))
       = [BigDataPoolDelete ''rg1'' ''ws1'' ''pool1'', WaitForCompletionRef (Future 2)]
   \<and> snd (resourceArmSynapseBigDataPoolDelete example_env (example_state\<lparr>d_Id := ''nonsense''\<rparr>))
       \<noteq> None"
  using delete_submits_then_waits [of example_env example_state]
        delete_submits_then_waits [of example_env "example_state\<lparr>d_Id := ''nonsense''\<rparr>"]
  by (simp add: example_defs resourceArmSynapseBigDataPoolDelete_def state_defs)

section \<open>Properties of Create and Update\<close>

text \<open>Every payload that Create or Update submits is one that lines 188 to 205 built from
  the attributes.\<close>

lemma submitted_payload_is_built:
  assumes "BigDataPoolCreateOrUpdate rg wn name info
             \<in> set (newCalls s (fst (resourceArmSynapseBigDataPoolCreateUpdate env s)))"
  shows "\<exists>ws. buildBigDataPoolInfo env s ws = Inr info"
proof -
  have b: "\<And>cs ws. buildBigDataPoolInfo env (s\<lparr>calls := cs\<rparr>) ws
            = buildBigDataPoolInfo env s ws"
    by (rule build_attrs_cong) simp
  have "BigDataPoolCreateOrUpdate rg wn name info
             \<in> set (newCalls s (fst (resourceArmSynapseBigDataPoolCreateUpdate env s)))
        \<longrightarrow> (\<exists>ws. buildBigDataPoolInfo env s ws = Inr info)"
    by (auto simp add: resourceArmSynapseBigDataPoolCreateUpdate_def Let_def case_prod_beta
          newCalls_def called_def checkExisting_fst submitAndWait_calls rereadAndStore_calls b
          split: sum.split option.split if_split)
  with assms show ?thesis by blast
qed

text \<open>What the auto-scale converter returns on a list of blocks, when it returns.\<close>

lemma expand_auto_scale_Inr:
  assumes "expandArmBigDataPoolAutoScaleProperties input = Inr r" "list_all isBlock input"
  shows "\<exists>a. r = Some a
     \<and> (AutoScale_Enabled a = Some False) = (input = [])
     \<and> (AutoScale_Enabled a = Some True) = (input \<noteq> [])
     \<and> (MinNodeCount a = None \<and> MaxNodeCount a = None) = (input = [])
     \<and> (MinNodeCount a \<noteq> None \<and> MaxNodeCount a \<noteq> None) = (input \<noteq> [])"
proof (cases input)
  case Nil
  with assms show ?thesis
    by (auto simp add: expandArmBigDataPoolAutoScaleProperties_def)
next
  case (Cons x xs)
  with assms(2) obtain m where "x = VMap m"
    by (cases x) simp_all
  with Cons assms(1) show ?thesis
    by (auto simp add: expandArmBigDataPoolAutoScaleProperties_def andThen_Inr)
qed

lemma build_sizing:
  assumes "buildBigDataPoolInfo env s ws = Inr info"
    and "d_Get s ''auto_scale'' = VList autoScale"
    and "list_all isBlock autoScale"
  shows "\<exists>props a. Properties info = Some props \<and> AutoScale props = Some a
     \<and> (NodeCount props \<noteq> None) = (autoScale = [])
     \<and> (AutoScale_Enabled a = Some False) = (autoScale = [])
     \<and> (NodeCount props \<noteq> None) = (MinNodeCount a = None \<and> MaxNodeCount a = None)
     \<and> (NodeCount props = None) = (MinNodeCount a \<noteq> None \<and> MaxNodeCount a \<noteq> None)"
proof -
  from assms(1,2) obtain r where r: "expandArmBigDataPoolAutoScaleProperties autoScale = Inr r"
    by (auto simp add: buildBigDataPoolInfo_def andThen_Inr)
  from expand_auto_scale_Inr [OF r assms(3)] obtain a where a: "r = Some a"
     "(AutoScale_Enabled a = Some False) = (autoScale = [])"
     "(AutoScale_Enabled a = Some True) = (autoScale \<noteq> [])"
     "(MinNodeCount a = None \<and> MaxNodeCount a = None) = (autoScale = [])"
     "(MinNodeCount a \<noteq> None \<and> MaxNodeCount a \<noteq> None) = (autoScale \<noteq> [])"
    by blast
  from assms(1,2) r a(1) have
    "\<exists>props. Properties info = Some props \<and> AutoScale props = Some a
       \<and> (NodeCount props \<noteq> None) = (AutoScale_Enabled a = Some False)"
    by (cases "autoScale = []")
       (auto simp add: buildBigDataPoolInfo_def andThen_Inr Let_def a(2,3)
          split: option.splits if_splits)
  with a show ?thesis
    by (cases "autoScale = []") auto
qed

text \<open>The payload the example configuration gives, and the calls of an update with it.\<close>

lemma example_build:
  "buildBigDataPoolInfo example_env example_state \<lparr>Workspace_Location = Some ''westeurope''\<rparr>
     = Inr example_payload"
  by (simp add: buildBigDataPoolInfo_def andThen_def d_Get_def index_def example_defs
        expandArmBigDataPoolAutoPauseProperties_def expandArmBigDataPoolAutoScaleProperties_def
        expandArmBigDataPoolLibraryRequirements_def)

lemma example_update_calls:
  "newCalls example_state
     (fst (resourceArmSynapseBigDataPoolCreateUpdate example_env example_state)) =
     [WorkspaceGet ''rg1'' ''ws1'',
      BigDataPoolCreateOrUpdate ''rg1'' ''ws1'' ''pool1'' example_payload,
      WaitForCompletionRef (Future 1),
      BigDataPoolGet ''rg1'' ''ws1'' ''pool1'',
      BigDataPoolGet ''rg1'' ''ws1'' ''pool1'']"
  by (simp add: resourceArmSynapseBigDataPoolCreateUpdate_def Let_def case_prod_beta
        checkExisting_def submitAndWait_def rereadAndStore_calls
        buildBigDataPoolInfo_def andThen_def index_def state_defs example_defs
        expandArmBigDataPoolAutoPauseProperties_def expandArmBigDataPoolAutoScaleProperties_def
        expandArmBigDataPoolLibraryRequirements_def)

lemma example_autoscale_update_calls:
  "newCalls example_autoscale_state
     (fst (resourceArmSynapseBigDataPoolCreateUpdate example_env example_autoscale_state)) =
     [WorkspaceGet ''rg1'' ''ws1'',
      BigDataPoolCreateOrUpdate ''rg1'' ''ws1'' ''pool1'' example_autoscale_payload,
      WaitForCompletionRef (Future 1),
      BigDataPoolGet ''rg1'' ''ws1'' ''pool1'',
      BigDataPoolGet ''rg1'' ''ws1'' ''pool1'']"
  by (simp add: resourceArmSynapseBigDataPoolCreateUpdate_def Let_def case_prod_beta
        checkExisting_def submitAndWait_def rereadAndStore_calls
        buildBigDataPoolInfo_def andThen_def index_def state_defs example_defs
        example_autoscale_state_def example_autoscale_payload_def
        expandArmBigDataPoolAutoPauseProperties_def expandArmBigDataPoolAutoScaleProperties_def
        expandArmBigDataPoolLibraryRequirements_def)

lemma example_create_build:
  "buildBigDataPoolInfo env_create example_new_state \<lparr>Workspace_Location = Some ''westeurope''\<rparr>
     = Inr example_payload"
  by (simp add: buildBigDataPoolInfo_def andThen_def d_Get_def index_def example_defs
        expandArmBigDataPoolAutoPauseProperties_def expandArmBigDataPoolAutoScaleProperties_def
        expandArmBigDataPoolLibraryRequirements_def)

lemma example_no_id_build:
  "buildBigDataPoolInfo env_no_id example_state \<lparr>Workspace_Location = Some ''westeurope''\<rparr>
     = Inr example_payload"
  by (simp add: buildBigDataPoolInfo_def andThen_def d_Get_def index_def example_defs
        expandArmBigDataPoolAutoPauseProperties_def expandArmBigDataPoolAutoScaleProperties_def
        expandArmBigDataPoolLibraryRequirements_def)

text \<open>
  C5. Take a configuration whose \<open>auto_scale\<close> is a list of blocks, as the schema has it,
  and a payload that Create or Update submitted for it. The payload's \<open>NodeCount\<close> is set
  exactly when the \<open>auto_scale\<close> list is empty, which is exactly when the expanded
  \<open>AutoScale\<close> has \<open>Enabled\<close> false; and it is set exactly when the bounds are not, so
  the payload carries either the fixed node count or the auto-scale bounds, never both and
  never neither.
\<close>

theorem submitted_payload_has_one_sizing:
  assumes "BigDataPoolCreateOrUpdate rg wn name info
             \<in> set (newCalls s (fst (resourceArmSynapseBigDataPoolCreateUpdate env s)))"
    and "d_Get s ''auto_scale'' = VList autoScale"
    and "list_all isBlock autoScale"
  shows "\<exists>props a. Properties info = Some props \<and> AutoScale props = Some a
     \<and> (NodeCount props \<noteq> None) = (autoScale = [])
     \<and> (AutoScale_Enabled a = Some False) = (autoScale = [])
     \<and> (NodeCount props \<noteq> None) = (MinNodeCount a = None \<and> MaxNodeCount a = None)
     \<and> (NodeCount props = None) = (MinNodeCount a \<noteq> None \<and> MaxNodeCount a \<noteq> None)"
proof -
  from submitted_payload_is_built [OF assms(1)]
  obtain ws where "buildBigDataPoolInfo env s ws = Inr info" ..
  then show ?thesis
    using assms(2,3) by (rule build_sizing)
qed

theorem submitted_payload_has_one_sizing_witness:
  "BigDataPoolCreateOrUpdate ''rg1'' ''ws1'' ''pool1'' example_payload
     \<in> set (newCalls example_state
              (fst (resourceArmSynapseBigDataPoolCreateUpdate example_env example_state)))
   \<and> d_Get example_state ''auto_scale'' = VList []
   \<and> (\<exists>props a. Properties example_payload = Some props \<and> AutoScale props = Some a
        \<and> NodeCount props \<noteq> None \<and> AutoScale_Enabled a = Some False
        \<and> MinNodeCount a = None \<and> MaxNodeCount a = None)
   \<and> BigDataPoolCreateOrUpdate ''rg1'' ''ws1'' ''pool1'' example_autoscale_payload
     \<in> set (newCalls example_autoscale_state
              (fst (resourceArmSynapseBigDataPoolCreateUpdate example_env
                      example_autoscale_state)))
   \<and> d_Get example_autoscale_state ''auto_scale''
       = VList [VMap [(''min_node_count'', VInt 3), (''max_node_count'', VInt 10)]]
   \<and> (\<exists>props a. Properties example_autoscale_payload = Some props \<and> AutoScale props = Some a
        \<and> NodeCount props = None \<and> AutoScale_Enabled a \<noteq> Some False
        \<and> MinNodeCount a \<noteq> None \<and> MaxNodeCount a \<noteq> None)"
proof -
  have sent: "BigDataPoolCreateOrUpdate ''rg1'' ''ws1'' ''pool1'' example_payload
     \<in> set (newCalls example_state
              (fst (resourceArmSynapseBigDataPoolCreateUpdate example_env example_state)))"
    by (simp add: example_update_calls)
  have absent: "d_Get example_state ''auto_scale'' = VList []"
    by (simp add: d_Get_def example_defs)
  have sent': "BigDataPoolCreateOrUpdate ''rg1'' ''ws1'' ''pool1'' example_autoscale_payload
     \<in> set (newCalls example_autoscale_state
              (fst (resourceArmSynapseBigDataPoolCreateUpdate example_env
                      example_autoscale_state)))"
    by (simp add: example_autoscale_update_calls)
  have present: "d_Get example_autoscale_state ''auto_scale''
       = VList [VMap [(''min_node_count'', VInt 3), (''max_node_count'', VInt 10)]]"
    by (simp add: d_Get_def example_autoscale_state_def)
  have blocks: "list_all isBlock []"
    "list_all isBlock [VMap [(''min_node_count'', VInt 3), (''max_node_count'', VInt 10)]]"
    by simp_all
  from submitted_payload_has_one_sizing [OF sent absent blocks(1)]
       submitted_payload_has_one_sizing [OF sent' present blocks(2)]
       sent absent sent' present
  show ?thesis
    by auto
qed

text \<open>
  C4, as stated, fails: a not-found answer of the preliminary \<open>Get\<close> does not by itself
  lead to a submitted payload. In the example the preliminary \<open>Get\<close> answers 404, the
  workspace then cannot be read, and Create returns that error after two calls, neither of
  them a write.
\<close>

theorem create_not_found_counterexample:
  "d_IsNewResource example_new_state
   \<and> client_Get env_workspace_unreadable (calls example_new_state) ''rg1'' ''ws1'' ''pool1''
       = (no_pool 404, Some (External ''404 Not Found''))
   \<and> utils_ResponseWasNotFound env_workspace_unreadable (Response (no_pool 404))
   \<and> resourceArmSynapseBigDataPoolCreateUpdate env_workspace_unreadable example_new_state
       = (example_new_state
            \<lparr>calls := [BigDataPoolGet ''rg1'' ''ws1'' ''pool1'', WorkspaceGet ''rg1'' ''ws1'']\<rparr>,
          Returns (Some (Errorf ''reading Synapse workspace'' (External ''403 Forbidden''))))"
  by (simp add: resourceArmSynapseBigDataPoolCreateUpdate_def checkExisting_def state_defs
        example_defs env_workspace_unreadable_def)

text \<open>
  C4, amended. On Create of a new resource, when the preliminary \<open>Get\<close> returns a
  non-nil, non-empty ID, Create returns an error and its only call is that \<open>Get\<close>. When
  the preliminary \<open>Get\<close> reports not-found and returns no such ID, the check passes and
  the next call is the lookup of the workspace; when that lookup succeeds and the payload
  builds, the third call is the submission of that payload.
\<close>

theorem create_checks_for_existing:
  assumes new: "d_IsNewResource s"
    and name: "d_Get s ''name'' = VString name"
    and wsid: "d_Get s ''synapse_workspace_id'' = VString workspaceIdString"
    and parse: "fst (parse_SynapseWorkspaceID env workspaceIdString) = Some w"
    and rg: "rg = Workspace_ResourceGroup w" and wn: "wn = Workspace_Name w"
    and get: "client_Get env (calls s) rg wn name = (existing, err)"
  shows "(ID existing = Some i \<and> i \<noteq> [] \<longrightarrow>
            (\<exists>e. snd (resourceArmSynapseBigDataPoolCreateUpdate env s) = Returns (Some e))
          \<and> newCalls s (fst (resourceArmSynapseBigDataPoolCreateUpdate env s))
              = [BigDataPoolGet rg wn name])
       \<and> (err \<noteq> None \<and> utils_ResponseWasNotFound env (Response existing)
            \<and> (ID existing = None \<or> ID existing = Some []) \<longrightarrow>
            take 2 (newCalls s (fst (resourceArmSynapseBigDataPoolCreateUpdate env s)))
              = [BigDataPoolGet rg wn name, WorkspaceGet rg wn]
          \<and> (\<forall>workspace info.
                workspaceClient_Get env (calls s @ [BigDataPoolGet rg wn name]) rg wn
                  = (workspace, None)
              \<and> buildBigDataPoolInfo env s workspace = Inr info \<longrightarrow>
                take 3 (newCalls s (fst (resourceArmSynapseBigDataPoolCreateUpdate env s)))
                  = [BigDataPoolGet rg wn name, WorkspaceGet rg wn,
                     BigDataPoolCreateOrUpdate rg wn name info]))"
proof -
  have exists: "ID existing = Some i \<and> i \<noteq> [] \<longrightarrow>
      (\<exists>e. snd (resourceArmSynapseBigDataPoolCreateUpdate env s) = Returns (Some e))
      \<and> newCalls s (fst (resourceArmSynapseBigDataPoolCreateUpdate env s))
           = [BigDataPoolGet rg wn name]"
    using new name wsid parse get
    by (simp add: resourceArmSynapseBigDataPoolCreateUpdate_def checkExisting_def
          rg [symmetric] wn [symmetric] called_def newCalls_def split: option.split)
  have passes: "checkExisting env w name s = (called (BigDataPoolGet rg wn name) s, None)"
    if "err \<noteq> None" "utils_ResponseWasNotFound env (Response existing)"
       "ID existing = None \<or> ID existing = Some []"
    using new get that
    by (auto simp add: checkExisting_def rg [symmetric] wn [symmetric])
  have goes_on: "take 2 (newCalls s (fst (resourceArmSynapseBigDataPoolCreateUpdate env s)))
              = [BigDataPoolGet rg wn name, WorkspaceGet rg wn]"
    if "checkExisting env w name s = (called (BigDataPoolGet rg wn name) s, None)"
    using name wsid parse that
    by (simp add: resourceArmSynapseBigDataPoolCreateUpdate_def rg [symmetric] wn [symmetric]
          Let_def case_prod_beta called_def newCalls_def submitAndWait_calls
          rereadAndStore_calls split: option.split sum.split)
  have submits: "take 3 (newCalls s (fst (resourceArmSynapseBigDataPoolCreateUpdate env s)))
                  = [BigDataPoolGet rg wn name, WorkspaceGet rg wn,
                     BigDataPoolCreateOrUpdate rg wn name info]"
    if "checkExisting env w name s = (called (BigDataPoolGet rg wn name) s, None)"
       "workspaceClient_Get env (calls s @ [BigDataPoolGet rg wn name]) rg wn = (workspace, None)"
       "buildBigDataPoolInfo env s workspace = Inr info"
    for workspace info
    using name wsid parse that
    by (simp add: resourceArmSynapseBigDataPoolCreateUpdate_def rg [symmetric] wn [symmetric]
          Let_def case_prod_beta called_def newCalls_def submitAndWait_calls
          rereadAndStore_calls build_calls split: option.split sum.split)
  show ?thesis
    using exists passes goes_on submits by blast
qed

theorem create_checks_for_existing_witness:
  "(\<exists>e. snd (resourceArmSynapseBigDataPoolCreateUpdate example_env example_new_state)
          = Returns (Some e))
   \<and> newCalls example_new_state
        (fst (resourceArmSynapseBigDataPoolCreateUpdate example_env example_new_state))
       = [BigDataPoolGet ''rg1'' ''ws1'' ''pool1'']
   \<and> take 3 (newCalls example_new_state
        (fst (resourceArmSynapseBigDataPoolCreateUpdate env_create example_new_state)))
       = [BigDataPoolGet ''rg1'' ''ws1'' ''pool1'', WorkspaceGet ''rg1'' ''ws1'',
          BigDataPoolCreateOrUpdate ''rg1'' ''ws1'' ''pool1'' example_payload]"
proof -
  let ?ws = "\<lparr>Workspace_Location = Some ''westeurope''\<rparr>"
  have config:
    "d_IsNewResource example_new_state"
    "d_Get example_new_state ''name'' = VString ''pool1''"
    "d_Get example_new_state ''synapse_workspace_id'' = VString ''ws-id''"
    "''rg1'' = Workspace_ResourceGroup example_workspace_id"
    "''ws1'' = Workspace_Name example_workspace_id"
    by (simp_all add: d_Get_def example_new_state_def example_config_def
          example_workspace_id_def)
  have taken:
    "fst (parse_SynapseWorkspaceID example_env ''ws-id'') = Some example_workspace_id"
    "client_Get example_env (calls example_new_state) ''rg1'' ''ws1'' ''pool1''
       = (example_pool, None)"
    "ID example_pool = Some ''pool-id''"
    by (simp_all add: example_env_def example_pool_def)
  have free:
    "fst (parse_SynapseWorkspaceID env_create ''ws-id'') = Some example_workspace_id"
    "client_Get env_create (calls example_new_state) ''rg1'' ''ws1'' ''pool1''
       = (no_pool 404, Some (External ''404 Not Found''))"
    "utils_ResponseWasNotFound env_create (Response (no_pool 404))"
    "ID (no_pool 404) = None"
    "workspaceClient_Get env_create
       (calls example_new_state @ [BigDataPoolGet ''rg1'' ''ws1'' ''pool1'']) ''rg1'' ''ws1''
       = (?ws, None)"
    by (simp_all add: env_create_def example_env_def example_new_state_def no_pool_def)
  note first = create_checks_for_existing
    [OF config(1-3) taken(1) config(4,5) taken(2), of "''pool-id''"]
  note second = create_checks_for_existing
    [OF config(1-3) free(1) config(4,5) free(2), of "''pool-id''"]
  from first taken(3) have a:
    "(\<exists>e. snd (resourceArmSynapseBigDataPoolCreateUpdate example_env example_new_state)
          = Returns (Some e))
     \<and> newCalls example_new_state
        (fst (resourceArmSynapseBigDataPoolCreateUpdate example_env example_new_state))
       = [BigDataPoolGet ''rg1'' ''ws1'' ''pool1'']"
    by simp
  from second free(3,4,5) example_create_build have b:
    "take 3 (newCalls example_new_state
        (fst (resourceArmSynapseBigDataPoolCreateUpdate env_create example_new_state)))
       = [BigDataPoolGet ''rg1'' ''ws1'' ''pool1'', WorkspaceGet ''rg1'' ''ws1'',
          BigDataPoolCreateOrUpdate ''rg1'' ''ws1'' ''pool1'' example_payload]"
    by blast
  from a b show ?thesis
    by blast
qed

text \<open>
  C6. Take a run of Create or Update that passes the existence check, reads the workspace,
  builds the payload, and in which the submission and the wait succeed. Its next call
  reads the resource again. When that read returns an ID that is neither nil nor empty,
  the ID is stored and the run ends as Read does from the state holding it; when it
  returns a nil or empty ID, the run returns an error and the ID is what it was.
\<close>

theorem create_update_stores_reread_id:
  assumes name: "d_Get s ''name'' = VString name"
    and wsid: "d_Get s ''synapse_workspace_id'' = VString workspaceIdString"
    and parse: "fst (parse_SynapseWorkspaceID env workspaceIdString) = Some w"
    and rg: "rg = Workspace_ResourceGroup w" and wn: "wn = Workspace_Name w"
    and check: "checkExisting env w name s = (s1, None)"
    and lookup: "workspaceClient_Get env (calls s1) rg wn = (workspace, None)"
    and build: "buildBigDataPoolInfo env s workspace = Inr info"
    and submit: "client_CreateOrUpdate env (calls s1 @ [WorkspaceGet rg wn]) rg wn name info
                   = (fut, None)"
    and wait: "future_WaitForCompletionRef env
                 (calls s1 @ [WorkspaceGet rg wn, BigDataPoolCreateOrUpdate rg wn name info]) fut
                   = None"
    and reread: "client_Get env
                   (calls s1 @ [WorkspaceGet rg wn, BigDataPoolCreateOrUpdate rg wn name info,
                                WaitForCompletionRef fut]) rg wn name = (resp, err)"
  shows "take 4 (newCalls s1 (fst (resourceArmSynapseBigDataPoolCreateUpdate env s))) =
           [WorkspaceGet rg wn, BigDataPoolCreateOrUpdate rg wn name info,
            WaitForCompletionRef fut, BigDataPoolGet rg wn name]
       \<and> (err = None \<and> ID resp = Some i \<and> i \<noteq> [] \<longrightarrow>
            resourceArmSynapseBigDataPoolCreateUpdate env s =
              (case resourceArmSynapseBigDataPoolRead env
                      (s1\<lparr>calls := calls s1 @
                            [WorkspaceGet rg wn, BigDataPoolCreateOrUpdate rg wn name info,
                             WaitForCompletionRef fut, BigDataPoolGet rg wn name],
                          d_Id := i\<rparr>) of
                 (s', e) \<Rightarrow> (s', Returns e)))
       \<and> (ID resp = None \<or> ID resp = Some [] \<longrightarrow>
            (\<exists>e. snd (resourceArmSynapseBigDataPoolCreateUpdate env s) = Returns (Some e))
          \<and> d_Id (fst (resourceArmSynapseBigDataPoolCreateUpdate env s)) = d_Id s)"
proof -
  have s1: "s1 = (if d_IsNewResource s then called (BigDataPoolGet rg wn name) s else s)"
    using check checkExisting_fst [of env w name s] by (simp add: rg wn)
  have attrs: "d_attrs s1 = d_attrs s" and id: "d_Id s1 = d_Id s"
    by (simp_all add: s1 called_def)
  have built: "buildBigDataPoolInfo env (called (WorkspaceGet rg wn) s1) workspace = Inr info"
    using build build_attrs_cong [of "called (WorkspaceGet rg wn) s1" s env workspace]
    by (simp add: attrs called_def)
  have submitted: "submitAndWait env w name info (called (WorkspaceGet rg wn) s1) =
      (s1\<lparr>calls := calls s1 @ [WorkspaceGet rg wn, BigDataPoolCreateOrUpdate rg wn name info,
                                 WaitForCompletionRef fut]\<rparr>, None)"
    using submit wait by (simp add: submitAndWait_def called_def rg [symmetric] wn [symmetric])
  have run: "resourceArmSynapseBigDataPoolCreateUpdate env s =
      (case rereadAndStore env w name
              (s1\<lparr>calls := calls s1 @ [WorkspaceGet rg wn,
                      BigDataPoolCreateOrUpdate rg wn name info, WaitForCompletionRef fut]\<rparr>) of
         (s4, e) \<Rightarrow> (s4, Returns e))"
    using name wsid parse check lookup built submitted
    by (simp add: resourceArmSynapseBigDataPoolCreateUpdate_def rg [symmetric] wn [symmetric])
  show ?thesis
    using reread
    by (simp add: run rereadAndStore_def rg [symmetric] wn [symmetric] called_def d_SetId_def
          newCalls_def id Read_calls case_prod_beta Let_def
          split: option.split sum.split)
qed

theorem create_update_stores_reread_id_witness:
  "resourceArmSynapseBigDataPoolCreateUpdate env_create example_new_state =
     (case resourceArmSynapseBigDataPoolRead env_create
             (example_new_state
                \<lparr>calls := [BigDataPoolGet ''rg1'' ''ws1'' ''pool1'', WorkspaceGet ''rg1'' ''ws1'',
                            BigDataPoolCreateOrUpdate ''rg1'' ''ws1'' ''pool1'' example_payload,
                            WaitForCompletionRef (Future 1),
                            BigDataPoolGet ''rg1'' ''ws1'' ''pool1''],
                  d_Id := ''pool-id''\<rparr>) of
        (s', e) \<Rightarrow> (s', Returns e))
   \<and> (\<exists>e. snd (resourceArmSynapseBigDataPoolCreateUpdate env_no_id example_state)
             = Returns (Some e))
   \<and> d_Id (fst (resourceArmSynapseBigDataPoolCreateUpdate env_no_id example_state)) = ''pool-id''"
proof -
  let ?ws = "\<lparr>Workspace_Location = Some ''westeurope''\<rparr>"
  let ?s1 = "called (BigDataPoolGet ''rg1'' ''ws1'' ''pool1'') example_new_state"
  have created:
    "d_Get example_new_state ''name'' = VString ''pool1''"
    "d_Get example_new_state ''synapse_workspace_id'' = VString ''ws-id''"
    "fst (parse_SynapseWorkspaceID env_create ''ws-id'') = Some example_workspace_id"
    "''rg1'' = Workspace_ResourceGroup example_workspace_id"
    "''ws1'' = Workspace_Name example_workspace_id"
    "checkExisting env_create example_workspace_id ''pool1'' example_new_state = (?s1, None)"
    "workspaceClient_Get env_create (calls ?s1) ''rg1'' ''ws1'' = (?ws, None)"
    "client_CreateOrUpdate env_create (calls ?s1 @ [WorkspaceGet ''rg1'' ''ws1'']) ''rg1'' ''ws1''
       ''pool1'' example_payload = (Future 1, None)"
    "future_WaitForCompletionRef env_create
       (calls ?s1 @ [WorkspaceGet ''rg1'' ''ws1'',
                     BigDataPoolCreateOrUpdate ''rg1'' ''ws1'' ''pool1'' example_payload])
       (Future 1) = None"
    "client_Get env_create
       (calls ?s1 @ [WorkspaceGet ''rg1'' ''ws1'',
                     BigDataPoolCreateOrUpdate ''rg1'' ''ws1'' ''pool1'' example_payload,
                     WaitForCompletionRef (Future 1)]) ''rg1'' ''ws1'' ''pool1''
       = (example_pool, None)"
    by (simp_all add: d_Get_def checkExisting_def called_def env_create_def example_env_def
          example_new_state_def example_config_def example_workspace_id_def no_pool_def)
  have updated:
    "d_Get example_state ''name'' = VString ''pool1''"
    "d_Get example_state ''synapse_workspace_id'' = VString ''ws-id''"
    "fst (parse_SynapseWorkspaceID env_no_id ''ws-id'') = Some example_workspace_id"
    "checkExisting env_no_id example_workspace_id ''pool1'' example_state = (example_state, None)"
    "workspaceClient_Get env_no_id (calls example_state) ''rg1'' ''ws1'' = (?ws, None)"
    "client_CreateOrUpdate env_no_id (calls example_state @ [WorkspaceGet ''rg1'' ''ws1''])
       ''rg1'' ''ws1'' ''pool1'' example_payload = (Future 1, None)"
    "future_WaitForCompletionRef env_no_id
       (calls example_state @ [WorkspaceGet ''rg1'' ''ws1'',
                     BigDataPoolCreateOrUpdate ''rg1'' ''ws1'' ''pool1'' example_payload])
       (Future 1) = None"
    "client_Get env_no_id
       (calls example_state @ [WorkspaceGet ''rg1'' ''ws1'',
                     BigDataPoolCreateOrUpdate ''rg1'' ''ws1'' ''pool1'' example_payload,
                     WaitForCompletionRef (Future 1)]) ''rg1'' ''ws1'' ''pool1''
       = (example_pool\<lparr>ID := None\<rparr>, None)"
    by (simp_all add: d_Get_def checkExisting_def called_def env_no_id_def example_env_def
          example_state_def example_config_def example_workspace_id_def)
  note first = create_update_stores_reread_id
    [OF created(1-7) example_create_build created(8-10), of "''pool-id''"]
  note second = create_update_stores_reread_id
    [OF updated(1-3) created(4,5) updated(4,5) example_no_id_build updated(6-8), of "''pool-id''"]
  from first second show ?thesis
    by (simp add: example_pool_def called_def example_state_def example_new_state_def)
qed

text \<open>The two example runs to their end: the created pool keeps the ID of the second
  \<open>Get\<close>, and the update whose second \<open>Get\<close> carries no ID fails after four calls.\<close>

lemma example_create_ends_with_id:
  "d_Id (fst (resourceArmSynapseBigDataPoolCreateUpdate env_create example_new_state))
     = ''pool-id''
   \<and> snd (resourceArmSynapseBigDataPoolCreateUpdate env_create example_new_state)
     = Returns None
   \<and> resourceArmSynapseBigDataPoolCreateUpdate env_no_id example_state
     = (example_state
          \<lparr>calls := [WorkspaceGet ''rg1'' ''ws1'',
                      BigDataPoolCreateOrUpdate ''rg1'' ''ws1'' ''pool1'' example_payload,
                      WaitForCompletionRef (Future 1),
                      BigDataPoolGet ''rg1'' ''ws1'' ''pool1'']\<rparr>,
        Returns (Some (ErrorfPlain ''empty or nil ID returned for Synapse BigDataPool'')))"
  by (simp add: case_prod_beta resourceArmSynapseBigDataPoolCreateUpdate_def checkExisting_def
        submitAndWait_def rereadAndStore_def resourceArmSynapseBigDataPoolRead_def
        repopulate_def setProperties_def buildBigDataPoolInfo_def andThen_def index_def
        state_defs example_defs Let_def
        expandArmBigDataPoolAutoPauseProperties_def expandArmBigDataPoolAutoScaleProperties_def
        expandArmBigDataPoolLibraryRequirements_def)

end
